theory Spec2Isabelle
  imports Main "HOL-Library.Word"
begin

section \<open>Data model\<close>

text \<open>
  Timestamps (Go's \<^verbatim>\<open>time.Time\<close>, \<^verbatim>\<open>metav1.Time\<close>) are instants on one timeline, counted in
  nanoseconds by an unbounded integer: the range of \<^verbatim>\<open>time.Time\<close> (64-bit seconds) is far
  beyond every value that occurs here. A \<^verbatim>\<open>time.Duration\<close> is Go's \<^verbatim>\<open>int64\<close> count of
  nanoseconds: a 64-bit word read as two's complement by \<open>sint\<close>, whose \<open>+\<close> wraps around.
\<close>

type_synonym Time = int
type_synonym Duration = "64 word"

definition Nanosecond :: Duration where "Nanosecond = 1"
definition Second :: Duration where "Second = 1000000000"
definition Minute :: Duration where "Minute = 60 * Second"

definition maxDuration :: int where "maxDuration = 2 ^ 63 - 1"
definition minDuration :: int where "minDuration = - (2 ^ 63)"

text \<open>\<^verbatim>\<open>t.Sub(u)\<close>: the duration \<open>t - u\<close>, saturated at the largest and the smallest
  \<^verbatim>\<open>Duration\<close> when the difference does not fit.\<close>

definition Sub :: "Time \<Rightarrow> Time \<Rightarrow> Duration" where
  "Sub t u =
     (if t - u > maxDuration then word_of_int maxDuration
      else if t - u < minDuration then word_of_int minDuration
      else word_of_int (t - u))"

text \<open>\<^verbatim>\<open>t.Add(d)\<close>, \<^verbatim>\<open>t.Before(u)\<close>.\<close>

definition Add :: "Time \<Rightarrow> Duration \<Rightarrow> Time" where
  "Add t d = t + sint d"

definition Before :: "Time \<Rightarrow> Time \<Rightarrow> bool" where
  "Before t u = (t < u)"

text \<open>A node condition (\<^verbatim>\<open>core.NodeCondition\<close>) and the fields of \<^verbatim>\<open>core.Node\<close> that the
  filters and the event handler read.\<close>

record NodeCondition =
  Type :: string
  Status :: string
  LastTransitionTime :: Time

record Node =
  Name :: string
  UID :: string
  Labels :: "string \<rightharpoonup> string"
  Unschedulable :: bool
  Conditions :: "NodeCondition list"

text \<open>The filters and the handler receive an \<^verbatim>\<open>interface{}\<close> and assert \<^verbatim>\<open>*core.Node\<close> on it:
  an object is a node or something else.\<close>

datatype obj = NodeObj Node | OtherObj

section \<open>Node filters\<close>

subsection \<open>Label filter\<close>

text \<open>
  \<^verbatim>\<open>NewNodeLabelFilter(labels)\<close>. The required labels are a Go map, given here by its
  entries in the order in which \<^verbatim>\<open>range\<close> visits them (an order Go leaves open). A lookup
  \<^verbatim>\<open>n.GetLabels()[k]\<close> of a missing key gives the empty string and \<open>ok = false\<close>.
\<close>

fun labelLoop :: "(string \<times> string) list \<Rightarrow> (string \<rightharpoonup> string) \<Rightarrow> bool" where
  "labelLoop [] nl = True"
| "labelLoop ((k, v) # rest) nl =
     (let (val, ok) = (case nl k of Some x \<Rightarrow> (x, True) | None \<Rightarrow> ('''', False))
      in if val \<noteq> v \<or> \<not> ok then False else labelLoop rest nl)"

fun NewNodeLabelFilter :: "(string \<times> string) list \<Rightarrow> obj \<Rightarrow> bool" where
  "NewNodeLabelFilter labels OtherObj = False"
| "NewNodeLabelFilter labels (NodeObj n) = labelLoop labels (Labels n)"

subsection \<open>Schedulable filter\<close>

fun NodeSchedulableFilter :: "obj \<Rightarrow> bool" where
  "NodeSchedulableFilter OtherObj = False"
| "NodeSchedulableFilter (NodeObj n) = (\<not> Unschedulable n)"

subsection \<open>Processed filter\<close>

text \<open>\<^verbatim>\<open>NodeProcessed\<close> is a \<^verbatim>\<open>map[types.UID]bool\<close>; reading a missing key gives \<open>false\<close>.
  \<open>Filter\<close> mutates the map, so the model returns the answer together with the new map.\<close>

type_synonym NodeProcessed = "string \<rightharpoonup> bool"

definition NewNodeProcessed :: NodeProcessed where
  "NewNodeProcessed = Map.empty"

definition lookupProcessed :: "NodeProcessed \<Rightarrow> string \<Rightarrow> bool" where
  "lookupProcessed processed u = (case processed u of Some b \<Rightarrow> b | None \<Rightarrow> False)"

fun Filter :: "NodeProcessed \<Rightarrow> obj \<Rightarrow> bool \<times> NodeProcessed" where
  "Filter processed OtherObj = (False, processed)"
| "Filter processed (NodeObj n) =
     (if lookupProcessed processed (UID n) then (False, processed)
      else (True, processed(UID n \<mapsto> True)))"

text \<open>A sequence of calls on the same \<^verbatim>\<open>NodeProcessed\<close>: the answers, in order, and the final
  map.\<close>

fun FilterCalls :: "NodeProcessed \<Rightarrow> obj list \<Rightarrow> bool list \<times> NodeProcessed" where
  "FilterCalls processed [] = ([], processed)"
| "FilterCalls processed (o1 # os) =
     (let (b, processed') = Filter processed o1;
          (bs, processed'') = FilterCalls processed' os
      in (b # bs, processed''))"

text \<open>The identifiers of the nodes among a list of objects.\<close>

fun uidsOf :: "obj list \<Rightarrow> string set" where
  "uidsOf [] = {}"
| "uidsOf (OtherObj # os) = uidsOf os"
| "uidsOf (NodeObj n # os) = insert (UID n) (uidsOf os)"

subsection \<open>Condition specifications\<close>

text \<open>\<^verbatim>\<open>SuppliedCondition\<close>: its fields in the order of the positional literal in
  \<^verbatim>\<open>ParseConditions\<close>, named as the condition filter reads them.\<close>

record SuppliedCondition =
  Type :: string
  Status :: string
  MinimumDuration :: Duration

definition zeroSuppliedCondition :: SuppliedCondition where
  "zeroSuppliedCondition = \<lparr>Type = [], Status = [], MinimumDuration = 0\<rparr>"

text \<open>A Go \<^verbatim>\<open>error\<close> is represented by its message. A run-time panic is a value of its own.\<close>

type_synonym error = string

datatype panic = IndexOutOfRange nat nat

text \<open>\<^verbatim>\<open>strings.SplitN(s, sep, 2)\<close> for a separator of one character: the string itself when
  the separator does not occur, otherwise the parts before and after its first occurrence.\<close>

definition SplitN2 :: "string \<Rightarrow> char \<Rightarrow> string list" where
  "SplitN2 s sep =
     (if sep \<in> set s
      then [takeWhile (\<lambda>c. c \<noteq> sep) s, tl (dropWhile (\<lambda>c. c \<noteq> sep) s)]
      else [s])"

text \<open>
  One iteration of the loop of \<^verbatim>\<open>ParseConditions\<close>: \<open>Inl\<close> when indexing \<^verbatim>\<open>sm[1]\<close> panics,
  \<open>Inr None\<close> when \<^verbatim>\<open>parsed[i]\<close> is left as it is, \<open>Inr (Some sc)\<close> when it is assigned.
  \<^verbatim>\<open>time.ParseDuration\<close> belongs to Go's standard library and is the parameter \<open>pd\<close>.
\<close>

definition parseEntry ::
  "(string \<Rightarrow> error + Duration) \<Rightarrow> string \<Rightarrow> panic + SuppliedCondition option" where
  "parseEntry pd c =
     (let ts = SplitN2 c CHR ''='';
          ts = (if length ts \<noteq> 2 then [c, ''True,0s''] else ts);
          sm = SplitN2 (ts ! 1) CHR '',''
      in if \<not> 1 < length sm then Inl (IndexOutOfRange 1 (length sm))
         else (case pd (sm ! 1) of
                 Inr duration \<Rightarrow>
                   Inr (Some \<lparr>Type = ts ! 0, Status = sm ! 0, MinimumDuration = duration\<rparr>)
               | Inl err \<Rightarrow> Inr None))"

fun parseLoop ::
  "(string \<Rightarrow> error + Duration) \<Rightarrow> SuppliedCondition list \<Rightarrow> nat \<Rightarrow> string list
     \<Rightarrow> panic + SuppliedCondition list" where
  "parseLoop pd parsed i [] = Inr parsed"
| "parseLoop pd parsed i (c # cs) =
     (case parseEntry pd c of
        Inl p \<Rightarrow> Inl p
      | Inr None \<Rightarrow> parseLoop pd parsed (Suc i) cs
      | Inr (Some sc) \<Rightarrow> parseLoop pd (parsed[i := sc]) (Suc i) cs)"

definition ParseConditions ::
  "(string \<Rightarrow> error + Duration) \<Rightarrow> string list \<Rightarrow> panic + SuppliedCondition list" where
  "ParseConditions pd conditions =
     parseLoop pd (replicate (length conditions) zeroSuppliedCondition) 0 conditions"

text \<open>
  For evaluation at concrete inputs: \<^verbatim>\<open>time.ParseDuration\<close> on the three literals used
  below, \<^verbatim>\<open>"0s"\<close>, \<^verbatim>\<open>"5m"\<close> and \<^verbatim>\<open>"bad"\<close> (which Go rejects). The error reported for every
  other string is not meant to agree with Go; no general statement below depends on it.
\<close>

definition sampleParseDuration :: "string \<Rightarrow> error + Duration" where
  "sampleParseDuration s =
     (if s = ''0s'' then Inr 0
      else if s = ''5m'' then Inr (5 * Minute)
      else Inl (''time: invalid duration '' @ s))"

subsection \<open>Condition filter\<close>

text \<open>
  \<^verbatim>\<open>NewNodeConditionFilter(ct)\<close>: the two nested loops return at the first match. \<open>now\<close> is
  the reading of \<^verbatim>\<open>time.Now()\<close>; the code reads the clock anew at each comparison, the
  model once for the call.
\<close>

fun conditionLoop :: "SuppliedCondition \<Rightarrow> NodeCondition list \<Rightarrow> Time \<Rightarrow> bool" where
  "conditionLoop t [] now = False"
| "conditionLoop t (c # cs) now =
     (if NodeCondition.Type c = SuppliedCondition.Type t
         \<and> NodeCondition.Status c = SuppliedCondition.Status t
         \<and> Before (Add (LastTransitionTime c) (MinimumDuration t)) now
      then True else conditionLoop t cs now)"

fun suppliedLoop :: "SuppliedCondition list \<Rightarrow> NodeCondition list \<Rightarrow> Time \<Rightarrow> bool" where
  "suppliedLoop [] cs now = False"
| "suppliedLoop (t # pc) cs now =
     (if conditionLoop t cs now then True else suppliedLoop pc cs now)"

fun NewNodeConditionFilter ::
  "(string \<Rightarrow> error + Duration) \<Rightarrow> string list \<Rightarrow> obj \<Rightarrow> Time \<Rightarrow> panic + bool" where
  "NewNodeConditionFilter pd ct OtherObj now = Inr False"
| "NewNodeConditionFilter pd ct (NodeObj n) now =
     (if length ct = 0 then Inr True
      else (case ParseConditions pd ct of
              Inl p \<Rightarrow> Inl p
            | Inr pc \<Rightarrow> Inr (suppliedLoop pc (Conditions n) now)))"

text \<open>
  The condition filter in the words of the specification: some condition of the node
  equals some spec on type and status, and the time since its last transition is at
  least the spec's minimum duration (the boundary included).
\<close>

definition specConditionMatch :: "SuppliedCondition \<Rightarrow> NodeCondition \<Rightarrow> Time \<Rightarrow> bool" where
  "specConditionMatch t c now =
     (NodeCondition.Type c = SuppliedCondition.Type t
      \<and> NodeCondition.Status c = SuppliedCondition.Status t
      \<and> sint (MinimumDuration t) \<le> now - LastTransitionTime c)"

definition specConditionFilter ::
  "SuppliedCondition list \<Rightarrow> NodeCondition list \<Rightarrow> Time \<Rightarrow> bool" where
  "specConditionFilter pc cs now = list_ex (\<lambda>t. list_ex (\<lambda>c. specConditionMatch t c now) cs) pc"

section \<open>Draining event handler\<close>

definition DefaultDrainBuffer :: Duration where
  "DefaultDrainBuffer = 10 * Minute"

definition eventReasonCordonStarting :: string where
  "eventReasonCordonStarting = ''CordonStarting''"
definition eventReasonCordonSucceeded :: string where
  "eventReasonCordonSucceeded = ''CordonSucceeded''"
definition eventReasonCordonFailed :: string where
  "eventReasonCordonFailed = ''CordonFailed''"
definition eventReasonDrainScheduled :: string where
  "eventReasonDrainScheduled = ''DrainScheduled''"
definition eventReasonDrainStarting :: string where
  "eventReasonDrainStarting = ''DrainStarting''"
definition eventReasonDrainSucceeded :: string where
  "eventReasonDrainSucceeded = ''DrainSucceeded''"
definition eventReasonDrainFailed :: string where
  "eventReasonDrainFailed = ''DrainFailed''"

definition tagResultSucceeded :: string where
  "tagResultSucceeded = ''succeeded''"
definition tagResultFailed :: string where
  "tagResultFailed = ''failed''"

definition MeasureNodesCordoned :: string where
  "MeasureNodesCordoned = ''draino/nodes_cordoned''"
definition MeasureNodesDrained :: string where
  "MeasureNodesDrained = ''draino/nodes_drained''"

text \<open>
  What the handler does to its surroundings is kept as data:
  \<^item> an event as the event recorder receives it (\<^verbatim>\<open>Event\<close>, \<^verbatim>\<open>Eventf\<close>): the object
    reference, the reason, the message format and the arguments still to be formatted;
    every event of the handler has the type \<^verbatim>\<open>core.EventTypeWarning\<close>;
  \<^item> a measurement as \<^verbatim>\<open>stats.Record\<close> receives it: the measure, the tags
    \<^verbatim>\<open>node_name\<close> and \<^verbatim>\<open>result\<close>, and the value;
  \<^item> a call of the \<^verbatim>\<open>CordonDrainer\<close>;
  \<^item> a timer armed by \<^verbatim>\<open>time.AfterFunc\<close>: its delay and the node its function has
    captured (the object reference and the tags of the function derive from the node).
\<close>

record ObjectReference =
  Kind :: string
  RefName :: string
  RefUID :: string

datatype arg = ErrArg error | TimeArg Time

record Event =
  object :: ObjectReference
  reason :: string
  messageFmt :: string
  args :: "arg list"

record Measurement =
  measureName :: string
  tagNodeName :: string
  tagResult :: string
  val :: int

datatype call = CordonCall Node | DrainCall Node

record Timer =
  delay :: Duration
  captured :: Node

text \<open>
  The handler: its two fields of state, the events its recorder \<open>e\<close> has received and the
  calls its drainer \<open>d\<close> has received, together with the measurements recorded and the
  timers pending in the process. Logging is left out.
\<close>

record DrainingResourceEventHandler =
  lastDrainScheduledFor :: Time
  buffer :: Duration
  e :: "Event list"
  d :: "call list"
  recorded :: "Measurement list"
  timers :: "Timer list"

text \<open>\<^verbatim>\<open>NewDrainingResourceEventHandler\<close> with no option and with \<^verbatim>\<open>WithDrainBuffer\<close>; \<open>now\<close>
  is the reading of the clock.\<close>

definition NewDrainingResourceEventHandler :: "Time \<Rightarrow> DrainingResourceEventHandler" where
  "NewDrainingResourceEventHandler now =
     \<lparr>lastDrainScheduledFor = now, buffer = DefaultDrainBuffer,
      e = [], d = [], recorded = [], timers = []\<rparr>"

definition WithDrainBuffer ::
  "Duration \<Rightarrow> DrainingResourceEventHandler \<Rightarrow> DrainingResourceEventHandler" where
  "WithDrainBuffer b h = h\<lparr>buffer := b\<rparr>"

definition nodeRef :: "Node \<Rightarrow> ObjectReference" where
  "nodeRef n = \<lparr>Kind = ''Node'', RefName = Name n, RefUID = Name n\<rparr>"

definition emit ::
  "ObjectReference \<Rightarrow> string \<Rightarrow> string \<Rightarrow> arg list
     \<Rightarrow> DrainingResourceEventHandler \<Rightarrow> DrainingResourceEventHandler" where
  "emit nr r m as h = h\<lparr>e := e h @ [\<lparr>object = nr, reason = r, messageFmt = m, args = as\<rparr>]\<rparr>"

definition record_stat ::
  "string \<Rightarrow> Node \<Rightarrow> string \<Rightarrow> DrainingResourceEventHandler \<Rightarrow> DrainingResourceEventHandler" where
  "record_stat m n res h =
     h\<lparr>recorded := recorded h @
          [\<lparr>measureName = m, tagNodeName = Name n, tagResult = res, val = 1\<rparr>]\<rparr>"

definition invoke :: "call \<Rightarrow> DrainingResourceEventHandler \<Rightarrow> DrainingResourceEventHandler" where
  "invoke c h = h\<lparr>d := d h @ [c]\<rparr>"

text \<open>
  \<^verbatim>\<open>cordonAndDrain\<close>. \<open>cordonErr\<close> is what \<^verbatim>\<open>h.d.Cordon(n)\<close> returns (\<open>None\<close> for \<^verbatim>\<open>nil\<close>) and
  \<open>now\<close> what \<^verbatim>\<open>time.Now()\<close> returns after a successful cordon.
\<close>

definition cordonAndDrain ::
  "DrainingResourceEventHandler \<Rightarrow> Node \<Rightarrow> error option \<Rightarrow> Time
     \<Rightarrow> DrainingResourceEventHandler" where
  "cordonAndDrain h n cordonErr now =
     (let nr = nodeRef n;
          h = emit nr eventReasonCordonStarting ''Cordoning node'' [] h;
          h = invoke (CordonCall n) h
      in case cordonErr of
           Some err \<Rightarrow>
             (let h = record_stat MeasureNodesCordoned n tagResultFailed h
              in emit nr eventReasonCordonFailed ''Cordoning failed: %v'' [ErrArg err] h)
         | None \<Rightarrow>
             (let h = record_stat MeasureNodesCordoned n tagResultSucceeded h;
                  h = emit nr eventReasonCordonSucceeded ''Cordoned node'' [] h;
                  t = now;
                  dl = Sub (lastDrainScheduledFor h) t + buffer h;
                  h = h\<lparr>lastDrainScheduledFor := Add t dl\<rparr>;
                  h = emit nr eventReasonDrainScheduled ''Will drain node after %s''
                        [TimeArg (lastDrainScheduledFor h)] h
              in h\<lparr>timers := timers h @ [\<lparr>delay = dl, captured = n\<rparr>]\<rparr>))"

text \<open>
  The function handed to \<^verbatim>\<open>time.AfterFunc\<close>, run when its timer fires. \<open>drainErr\<close> is what
  \<^verbatim>\<open>h.d.Drain(n)\<close> returns and \<open>now\<close> the reading of the clock at that moment.
\<close>

definition drainFunc ::
  "DrainingResourceEventHandler \<Rightarrow> Node \<Rightarrow> error option \<Rightarrow> Time
     \<Rightarrow> DrainingResourceEventHandler" where
  "drainFunc h n drainErr now =
     (let nr = nodeRef n;
          h = h\<lparr>lastDrainScheduledFor := now\<rparr>;
          h = emit nr eventReasonDrainStarting ''Draining node'' [] h;
          h = invoke (DrainCall n) h
      in case drainErr of
           Some err \<Rightarrow>
             (let h = record_stat MeasureNodesDrained n tagResultFailed h
              in emit nr eventReasonDrainFailed ''Draining failed: %v'' [ErrArg err] h)
         | None \<Rightarrow>
             (let h = record_stat MeasureNodesDrained n tagResultSucceeded h
              in emit nr eventReasonDrainSucceeded ''Drained node'' [] h))"

text \<open>\<^verbatim>\<open>OnAdd\<close>, \<^verbatim>\<open>OnUpdate\<close>, \<^verbatim>\<open>OnDelete\<close>.\<close>

fun OnAdd ::
  "DrainingResourceEventHandler \<Rightarrow> obj \<Rightarrow> error option \<Rightarrow> Time
     \<Rightarrow> DrainingResourceEventHandler" where
  "OnAdd h OtherObj cordonErr now = h"
| "OnAdd h (NodeObj n) cordonErr now = cordonAndDrain h n cordonErr now"

definition OnUpdate ::
  "DrainingResourceEventHandler \<Rightarrow> obj \<Rightarrow> obj \<Rightarrow> error option \<Rightarrow> Time
     \<Rightarrow> DrainingResourceEventHandler" where
  "OnUpdate h oldObj newObj cordonErr now = OnAdd h newObj cordonErr now"

definition OnDelete :: "DrainingResourceEventHandler \<Rightarrow> obj \<Rightarrow> DrainingResourceEventHandler" where
  "OnDelete h obj = h"

text \<open>
  A run of the handler is a sequence of steps: a notification that reaches
  \<^verbatim>\<open>cordonAndDrain\<close> with a node, the outcome of the cordon and the clock reading, or
  the firing of the pending timer at a position of \<open>timers\<close>, with the outcome of the
  drain and the clock reading. A timer fires once: firing removes it. Firing at a
  position where no timer is pending changes nothing.
\<close>

datatype step =
  CordonAndDrain Node "error option" Time
| DrainFire nat "error option" Time

fun isDrainFire :: "step \<Rightarrow> bool" where
  "isDrainFire (DrainFire i r now) = True"
| "isDrainFire (CordonAndDrain n r now) = False"

fun exec :: "DrainingResourceEventHandler \<Rightarrow> step \<Rightarrow> DrainingResourceEventHandler" where
  "exec h (CordonAndDrain n r now) = cordonAndDrain h n r now"
| "exec h (DrainFire i r now) =
     (if i < length (timers h)
      then drainFunc (h\<lparr>timers := take i (timers h) @ drop (Suc i) (timers h)\<rparr>)
             (captured (timers h ! i)) r now
      else h)"

text \<open>The states a run passes through, the initial one first.\<close>

fun run :: "DrainingResourceEventHandler \<Rightarrow> step list \<Rightarrow> DrainingResourceEventHandler list" where
  "run h [] = [h]"
| "run h (s # ss) = h # run (exec h s) ss"

text \<open>The next permissible drain time in the words of the specification: the later of
  ``now + buffer'' and ``previous schedule + buffer''.\<close>

definition laterOf :: "DrainingResourceEventHandler \<Rightarrow> Time \<Rightarrow> Time" where
  "laterOf h now = max (now + sint (buffer h)) (lastDrainScheduledFor h + sint (buffer h))"

text \<open>
  The delay that a successful \<^verbatim>\<open>cordonAndDrain\<close> computes, \<^verbatim>\<open>lastDrainScheduledFor - now + buffer\<close>,
  does not exceed the largest \<^verbatim>\<open>Duration\<close>: in one step, and in every step of a run.
\<close>

fun delayFits :: "DrainingResourceEventHandler \<Rightarrow> step \<Rightarrow> bool" where
  "delayFits h (CordonAndDrain n None now) =
     (lastDrainScheduledFor h - now + sint (buffer h) \<le> maxDuration)"
| "delayFits h (CordonAndDrain n (Some err) now) = True"
| "delayFits h (DrainFire i r now) = True"

fun delaysFit :: "DrainingResourceEventHandler \<Rightarrow> step list \<Rightarrow> bool" where
  "delaysFit h [] = True"
| "delaysFit h (s # ss) = (delayFits h s \<and> delaysFit (exec h s) ss)"

section \<open>Sample inputs\<close>

definition node1 :: Node where
  "node1 = \<lparr>Name = ''n1'', UID = ''u1'', Labels = Map.empty, Unschedulable = False,
     Conditions = []\<rparr>"

definition node2 :: Node where
  "node2 = \<lparr>Name = ''n2'', UID = ''u2'', Labels = Map.empty, Unschedulable = False,
     Conditions = []\<rparr>"

definition workerNode :: Node where
  "workerNode = \<lparr>Name = ''n3'', UID = ''u3'',
     Labels = [''role'' \<mapsto> ''worker'', ''zone'' \<mapsto> ''a''], Unschedulable = False,
     Conditions = []\<rparr>"

definition readyNode :: Node where
  "readyNode = \<lparr>Name = ''n1'', UID = ''u1'', Labels = Map.empty, Unschedulable = False,
     Conditions = [\<lparr>NodeCondition.Type = ''Ready'', NodeCondition.Status = ''True'',
       LastTransitionTime = 0\<rparr>]\<rparr>"

text \<open>A handler whose buffer is the largest \<^verbatim>\<open>Duration\<close>, \<^verbatim>\<open>math.MaxInt64\<close> nanoseconds.\<close>

definition maxBufferHandler :: DrainingResourceEventHandler where
  "maxBufferHandler = WithDrainBuffer 9223372036854775807 (NewDrainingResourceEventHandler 0)"

section \<open>Properties of the node filters\<close>

subsection \<open>Label filter\<close>

lemma labelLoop_iff: "labelLoop ls nl = (\<forall>(k, v) \<in> set ls. nl k = Some v)"
  by (induction ls nl rule: labelLoop.induct) (auto split: option.splits)

lemma map_le_entries:
  "distinct (map fst ls) \<Longrightarrow> (map_of ls \<subseteq>\<^sub>m nl) = (\<forall>(k, v) \<in> set ls. nl k = Some v)"
  by (auto simp: map_le_def dom_map_of_conv_image_fst dest: map_of_SomeD)

text \<open>
  Claim C9. For a node object and a required label mapping (entries with distinct keys),
  the label filter returns true iff the node's label map is a superset of the required
  mapping by key and exact value; an empty requirement yields true for every node object.
\<close>

theorem label_filter_superset:
  "(distinct (map fst labels) \<longrightarrow>
      NewNodeLabelFilter labels (NodeObj n) = (map_of labels \<subseteq>\<^sub>m Labels n))
   \<and> NewNodeLabelFilter [] (NodeObj n)"
  by (simp add: labelLoop_iff map_le_entries)

theorem label_filter_superset_witness:
  "NewNodeLabelFilter [(''role'', ''worker'')] (NodeObj workerNode)
   \<and> \<not> NewNodeLabelFilter [(''role'', ''worker''), (''zone'', ''b'')] (NodeObj workerNode)
   \<and> \<not> NewNodeLabelFilter [(''role'', ''work'')] (NodeObj workerNode)
   \<and> \<not> NewNodeLabelFilter [(''disk'', ''ssd'')] (NodeObj workerNode)"
  using label_filter_superset [of "[(''role'', ''worker'')]" workerNode]
    label_filter_superset [of "[(''role'', ''worker''), (''zone'', ''b'')]" workerNode]
    label_filter_superset [of "[(''role'', ''work'')]" workerNode]
    label_filter_superset [of "[(''disk'', ''ssd'')]" workerNode]
  by (simp add: workerNode_def map_le_def)

subsection \<open>Processed filter\<close>

lemma Filter_lookup:
  "lookupProcessed (snd (Filter p x)) u =
     (lookupProcessed p u \<or> (case x of NodeObj n \<Rightarrow> UID n = u | OtherObj \<Rightarrow> False))"
  by (cases x) (auto simp: lookupProcessed_def)

lemma fst_FilterCalls_Cons:
  "fst (FilterCalls p (x # xs)) = fst (Filter p x) # fst (FilterCalls (snd (Filter p x)) xs)"
  by (simp split: prod.splits)

lemma FilterCalls_nth:
  "i < length os \<Longrightarrow>
   fst (FilterCalls p os) ! i =
     (case os ! i of
        NodeObj n \<Rightarrow> \<not> lookupProcessed p (UID n) \<and> UID n \<notin> uidsOf (take i os)
      | OtherObj \<Rightarrow> False)"
proof (induction os arbitrary: p i)
  case Nil
  then show ?case by simp
next
  case (Cons x xs)
  show ?case
  proof (cases i)
    case 0
    then show ?thesis by (cases x) (simp_all add: fst_FilterCalls_Cons del: FilterCalls.simps)
  next
    case (Suc j)
    with Cons.prems have j: "j < length xs" by simp
    have l: "\<And>u. lookupProcessed (snd (Filter p x)) u =
        (lookupProcessed p u \<or> (case x of NodeObj n \<Rightarrow> UID n = u | OtherObj \<Rightarrow> False))"
      by (rule Filter_lookup)
    have "fst (FilterCalls p (x # xs)) ! i = fst (FilterCalls (snd (Filter p x)) xs) ! j"
      by (simp add: fst_FilterCalls_Cons Suc del: FilterCalls.simps)
    also have "\<dots> = (case xs ! j of
        NodeObj n \<Rightarrow> \<not> lookupProcessed (snd (Filter p x)) (UID n) \<and> UID n \<notin> uidsOf (take j xs)
      | OtherObj \<Rightarrow> False)"
      by (rule Cons.IH [OF j])
    also have "\<dots> = (case (x # xs) ! i of
        NodeObj n \<Rightarrow> \<not> lookupProcessed p (UID n) \<and> UID n \<notin> uidsOf (take i (x # xs))
      | OtherObj \<Rightarrow> False)"
      unfolding l Suc by (cases x) (auto split: obj.splits)
    finally show ?thesis .
  qed
qed

text \<open>
  Claim C7. In every sequence of calls of the Processed filter on a fresh
  \<^verbatim>\<open>NodeProcessed\<close>, a call answers true iff its object is a node whose identifier no
  earlier call of the sequence carried: true at the first call for an identifier,
  false at every later one, whatever calls for other identifiers lie between.
\<close>

theorem processed_first_call_only:
  "i < length os \<Longrightarrow>
   fst (FilterCalls NewNodeProcessed os) ! i =
     (case os ! i of NodeObj n \<Rightarrow> UID n \<notin> uidsOf (take i os) | OtherObj \<Rightarrow> False)"
  by (simp add: FilterCalls_nth NewNodeProcessed_def lookupProcessed_def split: obj.splits)

theorem processed_first_call_only_witness:
  "fst (FilterCalls NewNodeProcessed [NodeObj node1, NodeObj node2, OtherObj, NodeObj node1])
     = [True, True, False, False]
   \<and> fst (FilterCalls NewNodeProcessed [NodeObj node1, NodeObj node2, OtherObj, NodeObj node1]) ! 3
     = (UID node1 \<notin> uidsOf (take 3 [NodeObj node1, NodeObj node2, OtherObj, NodeObj node1]))"
  using processed_first_call_only
    [of 3 "[NodeObj node1, NodeObj node2, OtherObj, NodeObj node1]"]
  by (simp add: NewNodeProcessed_def lookupProcessed_def node1_def node2_def)

subsection \<open>Condition parsing\<close>

text \<open>
  Claim C3. \<^verbatim>\<open>ParseConditions(["Ready=bad"])\<close> does not return a list with a zero-value entry:
  the entry has no comma, so \<^verbatim>\<open>sm\<close> has one element and reading \<^verbatim>\<open>sm[1]\<close> panics, whatever
  \<^verbatim>\<open>time.ParseDuration\<close> does. The other two examples of the claim, and an entry whose
  duration literal is malformed, behave as the claim says (the lemmas that follow).
\<close>

theorem ParseConditions_missing_comma_panics:
  "ParseConditions pd [''Ready=bad''] = Inl (IndexOutOfRange 1 1)"
  by (simp add: ParseConditions_def parseEntry_def SplitN2_def)

lemma ParseConditions_status_duration:
  "pd ''5m'' = Inr (5 * Minute) \<Longrightarrow>
   ParseConditions pd [''Ready=False,5m''] =
     Inr [\<lparr>Type = ''Ready'', Status = ''False'', MinimumDuration = 5 * Minute\<rparr>]"
  by (simp add: ParseConditions_def parseEntry_def SplitN2_def)

lemma ParseConditions_shorthand:
  "pd ''0s'' = Inr 0 \<Longrightarrow>
   ParseConditions pd [''Ready''] =
     Inr [\<lparr>Type = ''Ready'', Status = ''True'', MinimumDuration = 0\<rparr>]"
  by (simp add: ParseConditions_def parseEntry_def SplitN2_def)

lemma ParseConditions_bad_duration:
  "pd ''bad'' = Inl err \<Longrightarrow>
   ParseConditions pd [''Ready=False,bad''] = Inr [zeroSuppliedCondition]"
  by (simp add: ParseConditions_def parseEntry_def SplitN2_def)

lemma parseLoop_length:
  "parseLoop pd parsed i cs = Inr ps \<Longrightarrow> length ps = length parsed"
  by (induction cs arbitrary: parsed i) (auto split: sum.splits option.splits)

lemma ParseConditions_length:
  "ParseConditions pd cs = Inr ps \<Longrightarrow> length ps = length cs"
  by (auto simp: ParseConditions_def dest: parseLoop_length)

subsection \<open>Condition filter\<close>

lemma conditionLoop_iff:
  "conditionLoop t cs now =
     (\<exists>c \<in> set cs. NodeCondition.Type c = SuppliedCondition.Type t
        \<and> NodeCondition.Status c = SuppliedCondition.Status t
        \<and> sint (MinimumDuration t) < now - LastTransitionTime c)"
  by (induction cs) (auto simp: Before_def Add_def)

lemma suppliedLoop_iff:
  "suppliedLoop pc cs now =
     (\<exists>t \<in> set pc. \<exists>c \<in> set cs. NodeCondition.Type c = SuppliedCondition.Type t
        \<and> NodeCondition.Status c = SuppliedCondition.Status t
        \<and> sint (MinimumDuration t) < now - LastTransitionTime c)"
  by (induction pc) (auto simp: conditionLoop_iff)

text \<open>
  Claim C2, as amended. For a node object and a non-empty list of condition strings that
  \<^verbatim>\<open>ParseConditions\<close> parses into the specs \<open>pc\<close>, the condition filter returns true iff some
  condition of the node equals some spec of \<open>pc\<close> on type and status and the time since
  its last transition is strictly greater than the spec's minimum duration (at the
  boundary \<open>now = lastTransitionTime + duration\<close> the answer is false); for an empty
  list the filter returns true for every node object.
\<close>

theorem condition_filter_strict:
  "(ct \<noteq> [] \<and> ParseConditions pd ct = Inr pc \<longrightarrow>
      NewNodeConditionFilter pd ct (NodeObj n) now =
        Inr (\<exists>t \<in> set pc. \<exists>c \<in> set (Conditions n).
               NodeCondition.Type c = SuppliedCondition.Type t
             \<and> NodeCondition.Status c = SuppliedCondition.Status t
             \<and> sint (MinimumDuration t) < now - LastTransitionTime c))
   \<and> NewNodeConditionFilter pd [] (NodeObj n) now = Inr True"
  by (simp add: suppliedLoop_iff)

text \<open>At the boundary the specification's filter holds and the code's filter answers false.\<close>

theorem condition_filter_boundary_counterexample:
  "ParseConditions sampleParseDuration [''Ready''] =
     Inr [\<lparr>Type = ''Ready'', Status = ''True'', MinimumDuration = 0\<rparr>]
   \<and> specConditionFilter [\<lparr>Type = ''Ready'', Status = ''True'', MinimumDuration = 0\<rparr>]
        (Conditions readyNode) 0
   \<and> NewNodeConditionFilter sampleParseDuration [''Ready''] (NodeObj readyNode) 0 = Inr False"
  by (simp add: ParseConditions_def parseEntry_def SplitN2_def sampleParseDuration_def
      specConditionFilter_def specConditionMatch_def readyNode_def Before_def Add_def)

theorem condition_filter_strict_witness:
  "NewNodeConditionFilter sampleParseDuration [''Ready=True,5m''] (NodeObj readyNode) 300000000001 = Inr True
   \<and> NewNodeConditionFilter sampleParseDuration [''Ready=True,5m''] (NodeObj readyNode) 300000000000 = Inr False"
  using condition_filter_strict [of "[''Ready=True,5m'']" sampleParseDuration
      "[\<lparr>Type = ''Ready'', Status = ''True'', MinimumDuration = 5 * Minute\<rparr>]" readyNode 300000000001]
   condition_filter_strict [of "[''Ready=True,5m'']" sampleParseDuration
      "[\<lparr>Type = ''Ready'', Status = ''True'', MinimumDuration = 5 * Minute\<rparr>]" readyNode 300000000000]
  by (simp add: ParseConditions_def parseEntry_def SplitN2_def sampleParseDuration_def
      readyNode_def Minute_def Second_def)

section \<open>Properties of the draining event handler\<close>

subsection \<open>Arithmetic of durations\<close>

lemma stb63_self:
  "- 9223372036854775808 \<le> k \<Longrightarrow> k \<le> 9223372036854775807 \<Longrightarrow> signed_take_bit 63 k = k" for k :: int
  using signed_take_bit_int_eq_self [of 63 k] by simp

lemma stb63_high:
  fixes k :: int
  assumes "9223372036854775807 < k" "k < 27670116110564327424"
  shows "signed_take_bit 63 k = k - 18446744073709551616"
proof -
  have "(k + 9223372036854775808) mod 18446744073709551616
      = (k + 9223372036854775808 - 18446744073709551616) mod 18446744073709551616"
    by (simp only: minus_mod_self2)
  also have "\<dots> = k + 9223372036854775808 - 18446744073709551616"
    using assms by (intro mod_pos_pos_trivial) simp_all
  finally show ?thesis
    by (simp add: signed_take_bit_eq_take_bit_shift take_bit_eq_mod)
qed

lemma sint_word_of_int64:
  "- 9223372036854775808 \<le> k \<Longrightarrow> k \<le> 9223372036854775807 \<Longrightarrow> sint (word_of_int k :: Duration) = k"
  by (simp add: sint_sbintrunc' stb63_self)

lemma sint_bounds64:
  "- 9223372036854775808 \<le> sint (w :: Duration)" "sint (w :: Duration) \<le> 9223372036854775807"
  using sint_ge [of w] sint_lt [of w] by simp_all

lemma sint_add_exact:
  "- 9223372036854775808 \<le> sint a + sint b \<Longrightarrow> sint a + sint b \<le> 9223372036854775807
   \<Longrightarrow> sint (a + b) = sint a + sint b" for a b :: Duration
  by (simp add: sint_word_ariths stb63_self)

lemma sint_add_wrap:
  "9223372036854775807 < sint a + sint b
   \<Longrightarrow> sint (a + b) = sint a + sint b - 18446744073709551616" for a b :: Duration
  using sint_bounds64 [of a] sint_bounds64 [of b]
  by (simp add: sint_word_ariths stb63_high)

lemma sint_Sub:
  "sint (Sub t u) =
     (if t - u > 9223372036854775807 then 9223372036854775807
      else if t - u < - 9223372036854775808 then - 9223372036854775808 else t - u)"
  by (simp add: Sub_def maxDuration_def minDuration_def sint_word_of_int64 del: of_int_diff)

lemma candidate_exact:
  assumes "- 9223372036854775808 \<le> L - t" "L - t \<le> 9223372036854775807"
    and "- 9223372036854775808 \<le> L - t + sint B" "L - t + sint B \<le> 9223372036854775807"
  shows "Add t (Sub L t + B) = L + sint B"
proof -
  have s: "sint (Sub L t) = L - t" using assms(1,2) by (simp add: sint_Sub)
  have "sint (Sub L t + B) = sint (Sub L t) + sint B"
    using assms(3,4) s by (intro sint_add_exact) simp_all
  with s show ?thesis by (simp add: Add_def)
qed

lemma candidate_not_earlier:
  assumes "0 \<le> sint B" "L - t + sint B \<le> 9223372036854775807"
  shows "L \<le> Add t (Sub L t + B)"
proof (cases "- 9223372036854775808 \<le> L - t")
  case True
  with assms have "Add t (Sub L t + B) = L + sint B"
    by (intro candidate_exact) simp_all
  with assms(1) show ?thesis by simp
next
  case False
  then have s: "sint (Sub L t) = - 9223372036854775808" by (simp add: sint_Sub)
  have "sint (Sub L t + B) = sint (Sub L t) + sint B"
    using assms(1) s sint_bounds64 [of B] by (intro sint_add_exact) simp_all
  with s False assms(1) show ?thesis by (simp add: Add_def)
qed

lemma sint_ten_minutes: "sint (10 * Minute) = 600000000000"
  by (simp add: Minute_def Second_def)

lemma candidate_apart:
  "600000000000 \<le> \<bar>Add t (Sub L t + 10 * Minute) - L\<bar>"
proof -
  let ?B = "10 * Minute :: Duration"
  have b: "sint ?B = 600000000000" by (rule sint_ten_minutes)
  consider (high) "9223372036854775807 < L - t"
    | (low) "L - t < - 9223372036854775808"
    | (fit) "- 9223372036854775808 \<le> L - t" "L - t + 600000000000 \<le> 9223372036854775807"
    | (wrap) "L - t \<le> 9223372036854775807" "9223372036854775807 < L - t + 600000000000"
    by linarith
  then show ?thesis
  proof cases
    case high
    then have s: "sint (Sub L t) = 9223372036854775807" by (simp add: sint_Sub)
    have "sint (Sub L t + ?B) = sint (Sub L t) + sint ?B - 18446744073709551616"
      by (rule sint_add_wrap) (simp add: s b)
    with s b high show ?thesis by (simp add: Add_def)
  next
    case low
    then have s: "sint (Sub L t) = - 9223372036854775808" by (simp add: sint_Sub)
    have "sint (Sub L t + ?B) = sint (Sub L t) + sint ?B"
      by (rule sint_add_exact) (simp_all add: s b)
    with s b low show ?thesis by (simp add: Add_def)
  next
    case fit
    then have "Add t (Sub L t + ?B) = L + sint ?B"
      by (intro candidate_exact) (simp_all add: b)
    with b show ?thesis by simp
  next
    case wrap
    then have s: "sint (Sub L t) = L - t" by (simp add: sint_Sub)
    have "sint (Sub L t + ?B) = sint (Sub L t) + sint ?B - 18446744073709551616"
      by (rule sint_add_wrap) (use wrap in \<open>simp add: s b\<close>)
    with s b wrap show ?thesis by (simp add: Add_def)
  qed
qed

subsection \<open>What one call changes\<close>

lemmas effects = emit_def record_stat_def invoke_def Let_def

lemma cordonAndDrain_last_ok:
  "lastDrainScheduledFor (cordonAndDrain h n None now) =
     Add now (Sub (lastDrainScheduledFor h) now + buffer h)"
  by (simp add: cordonAndDrain_def effects)

lemma cordonAndDrain_last_failed:
  "lastDrainScheduledFor (cordonAndDrain h n (Some err) now) = lastDrainScheduledFor h"
  by (simp add: cordonAndDrain_def effects)

lemma cordonAndDrain_buffer: "buffer (cordonAndDrain h n r now) = buffer h"
  by (cases r) (simp_all add: cordonAndDrain_def effects)

lemma drainFunc_buffer: "buffer (drainFunc h n r now) = buffer h"
  by (cases r) (simp_all add: drainFunc_def effects)

lemma exec_buffer: "buffer (exec h s) = buffer h"
  by (cases s) (simp_all add: cordonAndDrain_buffer drainFunc_buffer)

lemma cordonAndDrain_timers_ok:
  "timers (cordonAndDrain h n None now) =
     timers h @ [\<lparr>delay = Sub (lastDrainScheduledFor h) now + buffer h, captured = n\<rparr>]"
  by (simp add: cordonAndDrain_def effects)

lemma cordonAndDrain_e_ok:
  "e (cordonAndDrain h n None now) = e h @
     [\<lparr>object = nodeRef n, reason = eventReasonCordonStarting, messageFmt = ''Cordoning node'', args = []\<rparr>,
      \<lparr>object = nodeRef n, reason = eventReasonCordonSucceeded, messageFmt = ''Cordoned node'', args = []\<rparr>,
      \<lparr>object = nodeRef n, reason = eventReasonDrainScheduled, messageFmt = ''Will drain node after %s'',
        args = [TimeArg (Add now (Sub (lastDrainScheduledFor h) now + buffer h))]\<rparr>]"
  by (simp add: cordonAndDrain_def effects)

lemma cordonAndDrain_d: "d (cordonAndDrain h n r now) = d h @ [CordonCall n]"
  by (cases r) (simp_all add: cordonAndDrain_def effects)

lemma cordonAndDrain_recorded_ok:
  "recorded (cordonAndDrain h n None now) = recorded h @
     [\<lparr>measureName = MeasureNodesCordoned, tagNodeName = Name n, tagResult = tagResultSucceeded, val = 1\<rparr>]"
  by (simp add: cordonAndDrain_def effects)

lemma cordonAndDrain_failed:
  "cordonAndDrain h n (Some err) now =
     h\<lparr>e := e h @
        [\<lparr>object = nodeRef n, reason = eventReasonCordonStarting, messageFmt = ''Cordoning node'', args = []\<rparr>,
         \<lparr>object = nodeRef n, reason = eventReasonCordonFailed, messageFmt = ''Cordoning failed: %v'',
           args = [ErrArg err]\<rparr>],
       d := d h @ [CordonCall n],
       recorded := recorded h @
        [\<lparr>measureName = MeasureNodesCordoned, tagNodeName = Name n, tagResult = tagResultFailed, val = 1\<rparr>]\<rparr>"
  by (simp add: cordonAndDrain_def effects)

lemma drainFunc_ok:
  "drainFunc h n None now =
     h\<lparr>lastDrainScheduledFor := now,
       e := e h @
        [\<lparr>object = nodeRef n, reason = eventReasonDrainStarting, messageFmt = ''Draining node'', args = []\<rparr>,
         \<lparr>object = nodeRef n, reason = eventReasonDrainSucceeded, messageFmt = ''Drained node'', args = []\<rparr>],
       d := d h @ [DrainCall n],
       recorded := recorded h @
        [\<lparr>measureName = MeasureNodesDrained, tagNodeName = Name n, tagResult = tagResultSucceeded, val = 1\<rparr>]\<rparr>"
  by (simp add: drainFunc_def effects)

lemma drainFunc_d: "d (drainFunc h n r now) = d h @ [DrainCall n]"
  by (cases r) (simp_all add: drainFunc_def effects)

lemma drainFunc_timers: "timers (drainFunc h n r now) = timers h"
  by (cases r) (simp_all add: drainFunc_def effects)

text \<open>
  Claim C10. If the Cordon capability returns an error, \<^verbatim>\<open>cordonAndDrain\<close> leaves the
  handler's \<^verbatim>\<open>lastDrainScheduledFor\<close> and \<^verbatim>\<open>buffer\<close> as they were.
\<close>

theorem failed_cordon_keeps_pacing:
  "lastDrainScheduledFor (cordonAndDrain h n (Some err) now) = lastDrainScheduledFor h
   \<and> buffer (cordonAndDrain h n (Some err) now) = buffer h"
  by (simp add: cordonAndDrain_failed)

subsection \<open>The next permissible drain time\<close>

text \<open>
  A handler created at time 0 with the default buffer of ten minutes cordons its first
  node one hour later: the drain time computed is ten minutes after the creation, not
  the later of ``now + buffer'' and ``previous schedule + buffer'', which is one hour and
  ten minutes.
\<close>

theorem candidate_counterexample:
  "lastDrainScheduledFor (cordonAndDrain (NewDrainingResourceEventHandler 0) node1 None 3600000000000)
     = 600000000000
   \<and> laterOf (NewDrainingResourceEventHandler 0) 3600000000000 = 4200000000000"
  by (simp add: cordonAndDrain_last_ok NewDrainingResourceEventHandler_def DefaultDrainBuffer_def
      laterOf_def Add_def Sub_def maxDuration_def minDuration_def Minute_def Second_def)

text \<open>
  Claim C1, as amended. For every successful cordon at which \<^verbatim>\<open>lastDrainScheduledFor - now\<close>
  and \<^verbatim>\<open>lastDrainScheduledFor - now + buffer\<close> fit in a \<^verbatim>\<open>Duration\<close>, the next permissible drain
  time computed by \<^verbatim>\<open>cordonAndDrain\<close> is the previous \<^verbatim>\<open>lastDrainScheduledFor\<close> plus the buffer;
  it is the later of ``now + buffer'' and ``previous schedule + buffer'' exactly when the
  previous schedule is not before now. \<^verbatim>\<open>lastDrainScheduledFor\<close> holds this time when the call
  returns: the timer of the drain, whose delay is that time minus now, is then pending
  and the call has invoked Cordon only.
\<close>

theorem candidate_previous_plus_buffer:
  assumes "minDuration \<le> lastDrainScheduledFor h - now"
    and "lastDrainScheduledFor h - now \<le> maxDuration"
    and "minDuration \<le> lastDrainScheduledFor h - now + sint (buffer h)"
    and "lastDrainScheduledFor h - now + sint (buffer h) \<le> maxDuration"
  shows "lastDrainScheduledFor (cordonAndDrain h n None now)
           = lastDrainScheduledFor h + sint (buffer h)
       \<and> (lastDrainScheduledFor (cordonAndDrain h n None now) = laterOf h now)
           = (now \<le> lastDrainScheduledFor h)
       \<and> timers (cordonAndDrain h n None now)
           = timers h @ [\<lparr>delay = Sub (lastDrainScheduledFor h) now + buffer h, captured = n\<rparr>]
       \<and> sint (Sub (lastDrainScheduledFor h) now + buffer h)
           = lastDrainScheduledFor h + sint (buffer h) - now
       \<and> d (cordonAndDrain h n None now) = d h @ [CordonCall n]"
proof -
  have c: "Add now (Sub (lastDrainScheduledFor h) now + buffer h)
      = lastDrainScheduledFor h + sint (buffer h)"
    using assms by (intro candidate_exact) (simp_all add: minDuration_def maxDuration_def)
  then have "sint (Sub (lastDrainScheduledFor h) now + buffer h)
      = lastDrainScheduledFor h + sint (buffer h) - now"
    by (simp add: Add_def)
  with c show ?thesis
    by (auto simp: cordonAndDrain_last_ok cordonAndDrain_timers_ok cordonAndDrain_d laterOf_def)
qed

theorem candidate_previous_plus_buffer_witness:
  "lastDrainScheduledFor (cordonAndDrain (NewDrainingResourceEventHandler 0) node1 None 1000000000)
     = 600000000000
   \<and> laterOf (NewDrainingResourceEventHandler 0) 1000000000 = 601000000000"
  using candidate_previous_plus_buffer [of "NewDrainingResourceEventHandler 0" 1000000000 node1]
  by (simp add: NewDrainingResourceEventHandler_def DefaultDrainBuffer_def Minute_def Second_def
      minDuration_def maxDuration_def laterOf_def)

subsection \<open>The pacing clock along a run\<close>

lemma run_nth_0: "run h ss ! 0 = h"
  by (cases ss) simp_all

lemma exec_not_earlier:
  assumes "0 \<le> sint (buffer h)" "delayFits h s" "\<not> isDrainFire s"
  shows "lastDrainScheduledFor h \<le> lastDrainScheduledFor (exec h s)"
proof (cases s)
  case (CordonAndDrain n r now)
  show ?thesis
  proof (cases r)
    case None
    with assms CordonAndDrain show ?thesis
      by (simp add: cordonAndDrain_last_ok candidate_not_earlier maxDuration_def)
  next
    case (Some err)
    with CordonAndDrain show ?thesis by (simp add: cordonAndDrain_last_failed)
  qed
next
  case (DrainFire i r now)
  with assms show ?thesis by simp
qed

text \<open>
  Claim C4, as amended. In every run of \<^verbatim>\<open>cordonAndDrain\<close> steps and drain-fire steps of a
  handler with a non-negative buffer, in which the delay computed at each successful
  cordon does not exceed the largest \<^verbatim>\<open>Duration\<close>, no step other than a drain-fire step
  decreases \<^verbatim>\<open>lastDrainScheduledFor\<close>.
\<close>

theorem pacing_clock_not_backward:
  "0 \<le> sint (buffer h) \<Longrightarrow> delaysFit h ss \<Longrightarrow> i < length ss \<Longrightarrow> \<not> isDrainFire (ss ! i)
   \<Longrightarrow> lastDrainScheduledFor (run h ss ! i) \<le> lastDrainScheduledFor (run h ss ! Suc i)"
proof (induction ss arbitrary: h i)
  case Nil
  then show ?case by simp
next
  case (Cons s ss)
  show ?case
  proof (cases i)
    case 0
    with Cons.prems show ?thesis by (simp add: run_nth_0 exec_not_earlier)
  next
    case (Suc j)
    with Cons.prems Cons.IH [of "exec h s" j] show ?thesis by (simp add: exec_buffer)
  qed
qed

text \<open>
  With the largest buffer the second cordon of a run overflows the delay, which wraps
  around to \<open>-3\<close> nanoseconds: \<^verbatim>\<open>lastDrainScheduledFor\<close> falls from \<open>2\<^sup>6\<^sup>3 - 1\<close> to \<open>-2\<close> in a
  step that is not a drain-fire step.
\<close>

theorem pacing_clock_overflow_counterexample:
  "0 \<le> sint (buffer maxBufferHandler)
   \<and> \<not> isDrainFire (CordonAndDrain node1 None 1)
   \<and> map lastDrainScheduledFor
        (run maxBufferHandler [CordonAndDrain node1 None 0, CordonAndDrain node1 None 1])
      = [0, 9223372036854775807, - 2]"
  by (simp add: maxBufferHandler_def WithDrainBuffer_def NewDrainingResourceEventHandler_def
      cordonAndDrain_last_ok cordonAndDrain_buffer Add_def Sub_def maxDuration_def minDuration_def)

theorem pacing_clock_not_backward_witness:
  "lastDrainScheduledFor (run (NewDrainingResourceEventHandler 0)
      [CordonAndDrain node1 None 1, DrainFire 0 None 5, CordonAndDrain node2 None 7] ! 2)
   \<le> lastDrainScheduledFor (run (NewDrainingResourceEventHandler 0)
      [CordonAndDrain node1 None 1, DrainFire 0 None 5, CordonAndDrain node2 None 7] ! Suc 2)"
  using pacing_clock_not_backward [of "NewDrainingResourceEventHandler 0"
      "[CordonAndDrain node1 None 1, DrainFire 0 None 5, CordonAndDrain node2 None 7]" 2]
  by (simp add: NewDrainingResourceEventHandler_def DefaultDrainBuffer_def Minute_def Second_def
      cordonAndDrain_def drainFunc_def effects Add_def Sub_def maxDuration_def minDuration_def)

subsection \<open>Two cordons in sequence\<close>

lemma own_cordon_time:
  assumes "buffer h = 10 * Minute"
    and "minDuration \<le> lastDrainScheduledFor h - now"
    and "lastDrainScheduledFor h - now + 600000000000 \<le> maxDuration"
  shows "lastDrainScheduledFor (cordonAndDrain h n None now)
           = lastDrainScheduledFor h + 600000000000"
proof -
  have "Add now (Sub (lastDrainScheduledFor h) now + 10 * Minute)
      = lastDrainScheduledFor h + sint (10 * Minute :: Duration)"
    using assms(2,3)
    by (intro candidate_exact) (simp_all add: sint_ten_minutes minDuration_def maxDuration_def)
  then show ?thesis
    by (simp add: cordonAndDrain_last_ok assms(1) sint_ten_minutes)
qed

text \<open>
  Claim C5, as amended. For any two nodes cordoned successfully in sequence, with no
  drain firing in between, under a buffer of ten minutes, the two scheduled drain times
  are at least ten minutes apart from each other, whenever the two cordons happen;
  where the delay of the second fits in a \<^verbatim>\<open>Duration\<close>, the second is exactly ten minutes
  after the first. A scheduled drain time is ten minutes or more after its own cordon
  time only when the schedule before it is not earlier than that cordon time.
\<close>

theorem schedules_apart_not_after_own_cordon:
  assumes "buffer h = 10 * Minute"
  shows "600000000000 \<le> \<bar>lastDrainScheduledFor (cordonAndDrain (cordonAndDrain h n1 None t1) n2 None t2)
                     - lastDrainScheduledFor (cordonAndDrain h n1 None t1)\<bar>
   \<and> (minDuration \<le> lastDrainScheduledFor (cordonAndDrain h n1 None t1) - t2
        \<and> lastDrainScheduledFor (cordonAndDrain h n1 None t1) - t2 + 600000000000 \<le> maxDuration
      \<longrightarrow> lastDrainScheduledFor (cordonAndDrain (cordonAndDrain h n1 None t1) n2 None t2)
            = lastDrainScheduledFor (cordonAndDrain h n1 None t1) + 600000000000
        \<and> (t2 + 600000000000
              \<le> lastDrainScheduledFor (cordonAndDrain (cordonAndDrain h n1 None t1) n2 None t2))
            = (t2 \<le> lastDrainScheduledFor (cordonAndDrain h n1 None t1)))
   \<and> (minDuration \<le> lastDrainScheduledFor h - t1
        \<and> lastDrainScheduledFor h - t1 + 600000000000 \<le> maxDuration
      \<longrightarrow> (t1 + 600000000000 \<le> lastDrainScheduledFor (cordonAndDrain h n1 None t1))
            = (t1 \<le> lastDrainScheduledFor h))"
proof -
  let ?h1 = "cordonAndDrain h n1 None t1"
  have b1: "buffer ?h1 = 10 * Minute" using assms by (simp add: cordonAndDrain_buffer)
  have l2: "lastDrainScheduledFor (cordonAndDrain ?h1 n2 None t2)
      = Add t2 (Sub (lastDrainScheduledFor ?h1) t2 + 10 * Minute)"
    by (simp only: cordonAndDrain_last_ok b1)
  have apart: "600000000000 \<le> \<bar>lastDrainScheduledFor (cordonAndDrain ?h1 n2 None t2)
      - lastDrainScheduledFor ?h1\<bar>"
    unfolding l2 by (rule candidate_apart)
  have second: "lastDrainScheduledFor (cordonAndDrain ?h1 n2 None t2)
        = lastDrainScheduledFor ?h1 + 600000000000
      \<and> (t2 + 600000000000 \<le> lastDrainScheduledFor (cordonAndDrain ?h1 n2 None t2))
        = (t2 \<le> lastDrainScheduledFor ?h1)"
    if "minDuration \<le> lastDrainScheduledFor ?h1 - t2"
      and "lastDrainScheduledFor ?h1 - t2 + 600000000000 \<le> maxDuration"
    using own_cordon_time [OF b1 that, of n2] by simp
  have first: "(t1 + 600000000000 \<le> lastDrainScheduledFor ?h1) = (t1 \<le> lastDrainScheduledFor h)"
    if "minDuration \<le> lastDrainScheduledFor h - t1"
      and "lastDrainScheduledFor h - t1 + 600000000000 \<le> maxDuration"
    using own_cordon_time [OF assms that, of n1] by simp
  from apart second first show ?thesis by blast
qed

text \<open>
  A handler created at time 0 with the buffer of ten minutes cordons two nodes, one hour
  and one hour and a second later. The drains are scheduled for 10 and 20 minutes after
  the creation: ten minutes apart, but neither is ten minutes after its own cordon time,
  and both timers are armed with a negative delay, so both drains are due at once.
\<close>

theorem own_cordon_time_counterexample:
  "buffer (NewDrainingResourceEventHandler 0) = 10 * Minute
   \<and> lastDrainScheduledFor (cordonAndDrain (NewDrainingResourceEventHandler 0)
        node1 None 3600000000000) = 600000000000
   \<and> lastDrainScheduledFor (cordonAndDrain (cordonAndDrain (NewDrainingResourceEventHandler 0)
        node1 None 3600000000000) node2 None 3601000000000) = 1200000000000
   \<and> \<not> 3600000000000 + 600000000000
        \<le> lastDrainScheduledFor (cordonAndDrain (NewDrainingResourceEventHandler 0)
             node1 None 3600000000000)
   \<and> \<not> 3601000000000 + 600000000000
        \<le> lastDrainScheduledFor (cordonAndDrain (cordonAndDrain (NewDrainingResourceEventHandler 0)
             node1 None 3600000000000) node2 None 3601000000000)
   \<and> sint (delay (timers (cordonAndDrain (cordonAndDrain (NewDrainingResourceEventHandler 0)
        node1 None 3600000000000) node2 None 3601000000000) ! 0)) = - 3000000000000
   \<and> sint (delay (timers (cordonAndDrain (cordonAndDrain (NewDrainingResourceEventHandler 0)
        node1 None 3600000000000) node2 None 3601000000000) ! 1)) = - 2401000000000"
  by (simp add: NewDrainingResourceEventHandler_def DefaultDrainBuffer_def Minute_def Second_def
      cordonAndDrain_last_ok cordonAndDrain_buffer cordonAndDrain_timers_ok
      Add_def Sub_def maxDuration_def minDuration_def)

theorem schedules_apart_not_after_own_cordon_witness:
  "lastDrainScheduledFor (cordonAndDrain (NewDrainingResourceEventHandler 0) node1 None 1000000000)
     = 600000000000
   \<and> lastDrainScheduledFor (cordonAndDrain (cordonAndDrain (NewDrainingResourceEventHandler 0)
       node1 None 1000000000) node2 None 2000000000) = 1200000000000
   \<and> \<not> 1000000000 + 600000000000
        \<le> lastDrainScheduledFor (cordonAndDrain (NewDrainingResourceEventHandler 0)
             node1 None 1000000000)
   \<and> 2000000000 + 600000000000
        \<le> lastDrainScheduledFor (cordonAndDrain (cordonAndDrain (NewDrainingResourceEventHandler 0)
             node1 None 1000000000) node2 None 2000000000)"
  using schedules_apart_not_after_own_cordon
    [of "NewDrainingResourceEventHandler 0" node1 1000000000 node2 2000000000]
  by (simp add: NewDrainingResourceEventHandler_def DefaultDrainBuffer_def Minute_def Second_def
      cordonAndDrain_last_ok cordonAndDrain_buffer Add_def Sub_def maxDuration_def minDuration_def)

subsection \<open>A failed cordon\<close>

lemma last_run_Cons: "last (run h (s # ss)) = last (run (exec h s) ss)"
  by (cases ss) simp_all

lemma exec_fire_d:
  "DrainCall m \<in> set (d (exec h (DrainFire i r now)))
   \<Longrightarrow> DrainCall m \<in> set (d h) \<or> m \<in> captured ` set (timers h)"
  by (auto simp: drainFunc_d split: if_splits)

lemma exec_fire_timers:
  "set (timers (exec h (DrainFire i r now))) \<subseteq> set (timers h)"
  by (auto simp: drainFunc_timers dest: in_set_takeD in_set_dropD)

lemma fire_only_drains:
  "list_all isDrainFire ss \<Longrightarrow> DrainCall m \<in> set (d (last (run h ss)))
   \<Longrightarrow> DrainCall m \<in> set (d h) \<or> m \<in> captured ` set (timers h)"
proof (induction ss arbitrary: h)
  case Nil
  then show ?case by simp
next
  case (Cons s ss)
  from Cons.prems(1) obtain i r now where s: "s = DrainFire i r now"
    by (cases s) simp_all
  from Cons.prems have "DrainCall m \<in> set (d (exec h s)) \<or> m \<in> captured ` set (timers (exec h s))"
    by (intro Cons.IH) (simp_all add: last_run_Cons del: exec.simps run.simps)
  then show ?case
  proof
    assume "DrainCall m \<in> set (d (exec h s))"
    then show ?thesis unfolding s by (rule exec_fire_d)
  next
    assume "m \<in> captured ` set (timers (exec h s))"
    then show ?thesis using exec_fire_timers [of h i r now] unfolding s by blast
  qed
qed

text \<open>
  Claim C6. If the Cordon capability returns an error, \<^verbatim>\<open>cordonAndDrain\<close> emits the events
  CordonStarting and CordonFailed (carrying the error), records one nodes-cordoned
  measurement with the result failed, has invoked Cordon only and arms no timer; so in
  every continuation made of drain-fire steps, a node that Drain is invoked for was
  drained before the call or is captured by a timer that was pending before it. The
  call returns the handler and nothing else: no error reaches the caller.
\<close>

theorem failed_cordon_schedules_no_drain:
  "e (cordonAndDrain h n (Some err) now) = e h @
     [\<lparr>object = nodeRef n, reason = eventReasonCordonStarting,
        messageFmt = ''Cordoning node'', args = []\<rparr>,
      \<lparr>object = nodeRef n, reason = eventReasonCordonFailed,
        messageFmt = ''Cordoning failed: %v'', args = [ErrArg err]\<rparr>]
   \<and> recorded (cordonAndDrain h n (Some err) now) = recorded h @
     [\<lparr>measureName = MeasureNodesCordoned, tagNodeName = Name n,
        tagResult = tagResultFailed, val = 1\<rparr>]
   \<and> timers (cordonAndDrain h n (Some err) now) = timers h
   \<and> d (cordonAndDrain h n (Some err) now) = d h @ [CordonCall n]
   \<and> (\<forall>ss m. list_all isDrainFire ss
          \<and> DrainCall m \<in> set (d (last (run (cordonAndDrain h n (Some err) now) ss)))
        \<longrightarrow> DrainCall m \<in> set (d h) \<or> m \<in> captured ` set (timers h))"
proof -
  have "DrainCall m \<in> set (d h) \<or> m \<in> captured ` set (timers h)"
    if "list_all isDrainFire ss"
      and "DrainCall m \<in> set (d (last (run (cordonAndDrain h n (Some err) now) ss)))" for ss m
    using fire_only_drains [OF that] by (simp add: cordonAndDrain_failed)
  then show ?thesis by (simp add: cordonAndDrain_failed) blast
qed

theorem failed_cordon_schedules_no_drain_witness:
  "DrainCall node2 \<in> set (d (last (run
      (cordonAndDrain (cordonAndDrain (NewDrainingResourceEventHandler 0) node2 None 0)
         node1 (Some ''boom'') 1) [DrainFire 0 None 5])))
   \<and> node2 \<in> captured ` set (timers (cordonAndDrain (NewDrainingResourceEventHandler 0) node2 None 0))
   \<and> timers (cordonAndDrain (NewDrainingResourceEventHandler 0) node1 (Some ''boom'') 1) = []"
  using failed_cordon_schedules_no_drain
    [of "cordonAndDrain (NewDrainingResourceEventHandler 0) node2 None 0" node1 "''boom''" 1]
    failed_cordon_schedules_no_drain [of "NewDrainingResourceEventHandler 0" node1 "''boom''" 1]
  by (simp add: NewDrainingResourceEventHandler_def cordonAndDrain_def drainFunc_def effects)

subsection \<open>One node, both capabilities succeeding\<close>

text \<open>
  Claim C8. With a buffer of one second and both capabilities succeeding, a new handler
  that is notified of one node emits exactly CordonStarting, CordonSucceeded,
  DrainScheduled and arms one timer; when that timer fires, the events continue with
  DrainStarting, DrainSucceeded, and the measurements recorded are exactly one
  nodes-cordoned and one nodes-drained, each with the result succeeded.
\<close>

theorem one_node_scenario:
  "map reason (e (OnAdd (WithDrainBuffer Second (NewDrainingResourceEventHandler t0)) (NodeObj n) None t1))
     = [eventReasonCordonStarting, eventReasonCordonSucceeded, eventReasonDrainScheduled]
   \<and> timers (OnAdd (WithDrainBuffer Second (NewDrainingResourceEventHandler t0)) (NodeObj n) None t1)
     = [\<lparr>delay = Sub t0 t1 + Second, captured = n\<rparr>]
   \<and> map reason (e (exec (OnAdd (WithDrainBuffer Second (NewDrainingResourceEventHandler t0))
        (NodeObj n) None t1) (DrainFire 0 None t2)))
     = [eventReasonCordonStarting, eventReasonCordonSucceeded, eventReasonDrainScheduled,
        eventReasonDrainStarting, eventReasonDrainSucceeded]
   \<and> recorded (exec (OnAdd (WithDrainBuffer Second (NewDrainingResourceEventHandler t0))
        (NodeObj n) None t1) (DrainFire 0 None t2))
     = [\<lparr>measureName = MeasureNodesCordoned, tagNodeName = Name n,
          tagResult = tagResultSucceeded, val = 1\<rparr>,
        \<lparr>measureName = MeasureNodesDrained, tagNodeName = Name n,
          tagResult = tagResultSucceeded, val = 1\<rparr>]
   \<and> d (exec (OnAdd (WithDrainBuffer Second (NewDrainingResourceEventHandler t0))
        (NodeObj n) None t1) (DrainFire 0 None t2)) = [CordonCall n, DrainCall n]
   \<and> timers (exec (OnAdd (WithDrainBuffer Second (NewDrainingResourceEventHandler t0))
        (NodeObj n) None t1) (DrainFire 0 None t2)) = []"
  by (simp add: WithDrainBuffer_def NewDrainingResourceEventHandler_def cordonAndDrain_def
      drainFunc_def effects)

end
